theory Spec2Isabelle
  imports Main
begin

section \<open>The syncer plugin of trinity: data model\<close>

text \<open>
  The development embeds \<^verbatim>\<open>trinity/plugins/builtin/syncer/plugin.py\<close>: the sync
  strategies, the plugin that selects one of them, waits for the resources announced on the
  event bus, launches the strategy and requests a shutdown of the node when it ends.
\<close>

subsection \<open>Python values\<close>

text \<open>
  A resource carried by an event is an opaque object (identified by its address) or a tuple
  of resources. \<^verbatim>\<open>None\<close> is the \<open>None\<close> of \<open>resource option\<close>: the plugin's
  fields start as \<^verbatim>\<open>None\<close>.
\<close>

datatype resource = Obj nat | Tuple "resource list"

text \<open>
  The classes an event can name as its \<^verbatim>\<open>resource_type\<close>. The three classes the
  plugin tests for are constructors; any other class is either a (direct or indirect)
  subclass of a class, or unrelated to all of them.
\<close>

datatype resource_type =
    BaseChainPeerPool
  | BaseManager
  | BaseChain
  | Subclass string resource_type
  | OtherType string

definition ETHPeerPool :: resource_type where
  "ETHPeerPool = Subclass ''ETHPeerPool'' BaseChainPeerPool"

definition LESPeerPool :: resource_type where
  "LESPeerPool = Subclass ''LESPeerPool'' BaseChainPeerPool"

fun issubclass :: "resource_type \<Rightarrow> resource_type \<Rightarrow> bool" where
  "issubclass (Subclass n b) c = (Subclass n b = c \<or> issubclass b c)"
| "issubclass t c = (t = c)"

record ResourceAvailableEvent =
  resource :: resource
  resource_type :: resource_type

subsection \<open>Log lines\<close>

datatype log_entry = LogInfo string | LogWarn string | LogError string

subsection \<open>Strategies\<close>

text \<open>
  A strategy class: the four classes of the module, and any further subclass of
  \<^verbatim>\<open>BaseSyncStrategy\<close> that another plugin registers, given by its name, the value of
  its \<^verbatim>\<open>get_sync_mode\<close> and the value of its \<^verbatim>\<open>shutdown_node_on_halt\<close>.
  Two values are equal exactly when they are the same class.
\<close>

datatype strategy_type =
    NoopSyncStrategy
  | FullSyncStrategy
  | FastThenFullSyncStrategy
  | LightSyncStrategy
  | OtherSyncStrategy string string bool

text \<open>A strategy instance: its class and its identity as an object.\<close>

datatype strategy = Strategy (type_of: strategy_type) (oid: nat)

text \<open>
  Modelled from the spec: the constants \<^verbatim>\<open>SYNC_FULL\<close>, \<^verbatim>\<open>SYNC_FAST\<close> and
  \<^verbatim>\<open>SYNC_LIGHT\<close> of \<^verbatim>\<open>trinity.constants\<close> are not among the sources; the spec
  names the modes \<^verbatim>\<open>full\<close>, \<^verbatim>\<open>fast\<close>, \<^verbatim>\<open>light\<close> and \<^verbatim>\<open>none\<close>.
\<close>

definition SYNC_FULL :: string where "SYNC_FULL = ''full''"
definition SYNC_FAST :: string where "SYNC_FAST = ''fast''"
definition SYNC_LIGHT :: string where "SYNC_LIGHT = ''light''"

fun get_sync_mode :: "strategy_type \<Rightarrow> string" where
  "get_sync_mode NoopSyncStrategy = ''none''"
| "get_sync_mode FullSyncStrategy = SYNC_FULL"
| "get_sync_mode FastThenFullSyncStrategy = SYNC_FAST"
| "get_sync_mode LightSyncStrategy = SYNC_LIGHT"
| "get_sync_mode (OtherSyncStrategy n m h) = m"

text \<open>
  \<^verbatim>\<open>BaseSyncStrategy.shutdown_node_on_halt\<close> returns \<^verbatim>\<open>True\<close>; only the no-op
  strategy overrides it.
\<close>

fun shutdown_node_on_halt :: "strategy_type \<Rightarrow> bool" where
  "shutdown_node_on_halt NoopSyncStrategy = False"
| "shutdown_node_on_halt (OtherSyncStrategy n m h) = h"
| "shutdown_node_on_halt t = True"

subsection \<open>Errors\<close>

text \<open>
  The two \<^verbatim>\<open>ValidationError\<close>s of the plugin (the spec calls the first a
  configuration error and the second an ambiguous-strategy error), and the errors Python
  raises by itself.
\<close>

datatype validation =
    DefaultStrategyNotInStrategies strategy_type
  | AmbiguousSyncStrategy strategy strategy

datatype error =
    ValidationError validation
  | TypeError
  | ValueError
  | AttributeError

text \<open>How a call ends: it returns, or it raises.\<close>

datatype status = Returned | Raised error

subsection \<open>Strings\<close>

text \<open>
  \<^verbatim>\<open>str.lower\<close>, on the ASCII letters: the modes are command-line words.
\<close>

definition lower_char :: "char \<Rightarrow> char" where
  "lower_char c =
     (let n = (of_char c :: nat) in if 65 \<le> n \<and> n \<le> 90 then char_of (n + 32) else c)"

definition lower :: "string \<Rightarrow> string" where
  "lower s = map lower_char s"

subsection \<open>The plugin\<close>

text \<open>The stores a data-store manager hands out, and the syncers built from them.\<close>

datatype store = get_chaindb resource | get_db resource | get_headerdb resource

datatype syncer =
    FullChainSyncer "resource option" store store "resource option" "resource option"
  | FastThenFullChainSyncer "resource option" store store "resource option" "resource option"
  | LightChainSyncer "resource option" store "resource option" "resource option"

text \<open>
  The fields of \<^verbatim>\<open>SyncerPlugin\<close>, followed by what the plugin does to its
  collaborators: the lines written to the logger, whether \<^verbatim>\<open>handle_event\<close> is
  subscribed on the event bus, whether the plugin has been started, the number of
  \<^verbatim>\<open>handle_sync\<close> coroutines scheduled with \<^verbatim>\<open>asyncio.ensure_future\<close>, the
  syncers that were run and the reasons of the shutdown requests sent.
\<close>

record SyncerPlugin =
  peer_pool :: "resource option"
  cancel_token :: "resource option"
  chain :: "resource option"
  db_manager :: "resource option"
  active_strategy :: "strategy option"
  strategies :: "strategy list"
  default_strategy :: strategy_type
  logger :: "log_entry list"
  subscribed :: bool
  started :: bool
  scheduled :: nat
  syncers :: "syncer list"
  shutdown_requests :: "string list"

text \<open>\<^verbatim>\<open>SyncerPlugin.__init__\<close>, over the class attributes, all \<^verbatim>\<open>None\<close>.\<close>

definition init :: "strategy list \<Rightarrow> strategy_type \<Rightarrow> SyncerPlugin" where
  "init ss d =
     \<lparr>peer_pool = None, cancel_token = None, chain = None, db_manager = None,
      active_strategy = None, strategies = ss, default_strategy = d,
      logger = [], subscribed = False, started = False, scheduled = 0, syncers = [],
      shutdown_requests = []\<rparr>"

section \<open>Configuration\<close>

definition extract_modes :: "SyncerPlugin \<Rightarrow> string list" where
  "extract_modes p = map (\<lambda>s. get_sync_mode (type_of s)) (strategies p)"

definition extract_strategy_types :: "SyncerPlugin \<Rightarrow> strategy_type list" where
  "extract_strategy_types p = map type_of (strategies p)"

text \<open>The argument \<^verbatim>\<open>configure_parser\<close> adds to the parser.\<close>

record argument =
  flag :: string
  choices :: "string list"
  default_value :: string

definition configure_parser :: "SyncerPlugin \<Rightarrow> error + argument" where
  "configure_parser p =
     (if default_strategy p \<notin> set (extract_strategy_types p)
      then Inl (ValidationError (DefaultStrategyNotInStrategies (default_strategy p)))
      else Inr \<lparr>flag = ''--sync-mode'', choices = extract_modes p,
                default_value = get_sync_mode (default_strategy p)\<rparr>)"

section \<open>Activation\<close>

text \<open>The loop of \<^verbatim>\<open>on_ready\<close> over the strategies, for the configured mode \<open>m\<close>.\<close>

fun on_ready_loop :: "string \<Rightarrow> strategy list \<Rightarrow> SyncerPlugin \<Rightarrow> status \<times> SyncerPlugin" where
  "on_ready_loop m [] p = (Returned, p)"
| "on_ready_loop m (s # ss) p =
     (if lower (get_sync_mode (type_of s)) = lower m
      then (case active_strategy p of
              Some a \<Rightarrow> (Raised (ValidationError (AmbiguousSyncStrategy a s)), p)
            | None \<Rightarrow> on_ready_loop m ss (p\<lparr>active_strategy := Some s\<rparr>))
      else on_ready_loop m ss p)"

definition on_ready :: "string \<Rightarrow> SyncerPlugin \<Rightarrow> status \<times> SyncerPlugin" where
  "on_ready m p =
     (case on_ready_loop m (strategies p) p of
        (Raised e, p') \<Rightarrow> (Raised e, p')
      | (Returned, p') \<Rightarrow>
          (case active_strategy p' of
             None \<Rightarrow> (Returned,
               p'\<lparr>logger := logger p' @ [LogWarn (''No sync strategy matches --sync-mode='' @ m)]\<rparr>)
           | Some a \<Rightarrow> (Returned, p'\<lparr>subscribed := True\<rparr>)))"

section \<open>The resource barrier and the launch\<close>

text \<open>\<^verbatim>\<open>do_start\<close> schedules one \<^verbatim>\<open>handle_sync\<close> coroutine on the event loop.\<close>

definition do_start :: "SyncerPlugin \<Rightarrow> SyncerPlugin" where
  "do_start p = p\<lparr>scheduled := Suc (scheduled p)\<rparr>"

text \<open>
  Modelled from the spec: \<^verbatim>\<open>start\<close> is inherited from \<^verbatim>\<open>BaseAsyncStopPlugin\<close>
  (\<^verbatim>\<open>trinity.extensibility.plugin\<close>), which is not among the sources. The spec
  describes the transition taken at joint readiness as the launch of the active strategy's
  sync operation, which is what \<^verbatim>\<open>do_start\<close> does, and requires it to fire exactly
  once per run, a later notification being tolerated without a second launch and without
  a crash: the first \<open>start\<close> marks the plugin as started and runs \<open>do_start\<close>, a
  later one does nothing.
\<close>

definition start :: "SyncerPlugin \<Rightarrow> SyncerPlugin" where
  "start p = (if started p then p else do_start (p\<lparr>started := True\<rparr>))"

text \<open>
  The assignment \<^verbatim>\<open>a, b = value\<close>: a tuple of two elements is taken apart, a tuple
  of any other length raises \<^verbatim>\<open>ValueError\<close>, an object that is no tuple raises
  \<^verbatim>\<open>TypeError\<close>.
\<close>

fun unpack2 :: "resource \<Rightarrow> error + resource \<times> resource" where
  "unpack2 (Tuple [a, b]) = Inr (a, b)"
| "unpack2 (Tuple xs) = Inl ValueError"
| "unpack2 (Obj n) = Inl TypeError"

text \<open>The last two lines of \<^verbatim>\<open>handle_event\<close>: the joint-readiness check.\<close>

definition start_if_ready :: "SyncerPlugin \<Rightarrow> SyncerPlugin" where
  "start_if_ready p =
     (if None \<notin> set [peer_pool p, db_manager p, chain p] then start p else p)"

definition handle_event :: "ResourceAvailableEvent \<Rightarrow> SyncerPlugin \<Rightarrow> status \<times> SyncerPlugin" where
  "handle_event event p =
     (if issubclass (resource_type event) BaseChainPeerPool then
        (case unpack2 (resource event) of
           Inl e \<Rightarrow> (Raised e, p)
         | Inr (pool, token) \<Rightarrow>
             (Returned, start_if_ready (p\<lparr>peer_pool := Some pool, cancel_token := Some token\<rparr>)))
      else if resource_type event = BaseManager then
        (Returned, start_if_ready (p\<lparr>db_manager := Some (resource event)\<rparr>))
      else if resource_type event = BaseChain then
        (Returned, start_if_ready (p\<lparr>chain := Some (resource event)\<rparr>))
      else (Returned, start_if_ready p))"

text \<open>
  The event bus calls the handler of a plugin that subscribed, and only of such a plugin.
  A run of the plugin under a sequence of notifications delivers them one after the other;
  a handler that raises leaves the plugin as it was at the raise, and the bus goes on.
\<close>

definition deliver :: "ResourceAvailableEvent \<Rightarrow> SyncerPlugin \<Rightarrow> SyncerPlugin" where
  "deliver event p = (if subscribed p then snd (handle_event event p) else p)"

fun deliver_all :: "ResourceAvailableEvent list \<Rightarrow> SyncerPlugin \<Rightarrow> SyncerPlugin" where
  "deliver_all [] p = p"
| "deliver_all (event # events) p = deliver_all events (deliver event p)"

section \<open>Running the strategy\<close>

text \<open>
  Modelled from the spec: the syncers (\<^verbatim>\<open>FullChainSyncer\<close>,
  \<^verbatim>\<open>FastThenFullChainSyncer\<close>, \<^verbatim>\<open>LightChainSyncer\<close>) are not among the sources.
  The spec gives the sync operation three terminal states (completed normally, cancelled,
  failed) and the contract that \<^verbatim>\<open>sync\<close> completes on each of them: whichever
  terminal state is reached, control returns to the code that awaits the run.
\<close>

datatype terminal_state = CompletedNormally | Cancelled | Failed string

fun await_run :: "terminal_state \<Rightarrow> status" where
  "await_run CompletedNormally = Returned"
| "await_run Cancelled = Returned"
| "await_run (Failed e) = Returned"

definition run :: "syncer \<Rightarrow> terminal_state \<Rightarrow> SyncerPlugin \<Rightarrow> status \<times> SyncerPlugin" where
  "run s t p = (await_run t, p\<lparr>syncers := syncers p @ [s]\<rparr>)"

text \<open>
  \<^verbatim>\<open>sync\<close> of each strategy class, with the arguments \<^verbatim>\<open>handle_sync\<close> passes;
  \<open>t\<close> is the terminal state the syncer's run reaches. A method call on
  \<^verbatim>\<open>None\<close> raises \<^verbatim>\<open>AttributeError\<close>. The body of a strategy of another
  plugin is not known: it ends as \<open>t\<close> says.
\<close>

fun sync :: "strategy_type \<Rightarrow> resource option \<Rightarrow> resource option \<Rightarrow> resource option \<Rightarrow>
    resource option \<Rightarrow> terminal_state \<Rightarrow> SyncerPlugin \<Rightarrow> status \<times> SyncerPlugin" where
  "sync NoopSyncStrategy ch dbm pool token t p =
     (Returned, p\<lparr>logger := logger p @
        [LogInfo (''Node running without sync (--sync-mode='' @
                  get_sync_mode NoopSyncStrategy @ '')'')]\<rparr>)"
| "sync FullSyncStrategy ch dbm pool token t p =
     (case dbm of
        None \<Rightarrow> (Raised AttributeError, p)
      | Some m \<Rightarrow> run (FullChainSyncer ch (get_chaindb m) (get_db m) pool token) t p)"
| "sync FastThenFullSyncStrategy ch dbm pool token t p =
     (case dbm of
        None \<Rightarrow> (Raised AttributeError, p)
      | Some m \<Rightarrow> run (FastThenFullChainSyncer ch (get_chaindb m) (get_db m) pool token) t p)"
| "sync LightSyncStrategy ch dbm pool token t p =
     (case dbm of
        None \<Rightarrow> (Raised AttributeError, p)
      | Some m \<Rightarrow> run (LightChainSyncer ch (get_headerdb m) pool token) t p)"
| "sync (OtherSyncStrategy n m h) ch dbm pool token t p = (await_run t, p)"

text \<open>
  Modelled from the spec: \<^verbatim>\<open>request_shutdown\<close> of \<^verbatim>\<open>trinity.events\<close> is not
  among the sources; it emits one shutdown-request event that carries the reason.
\<close>

definition request_shutdown :: "string \<Rightarrow> SyncerPlugin \<Rightarrow> SyncerPlugin" where
  "request_shutdown reason p = p\<lparr>shutdown_requests := shutdown_requests p @ [reason]\<rparr>"

definition handle_sync :: "terminal_state \<Rightarrow> SyncerPlugin \<Rightarrow> status \<times> SyncerPlugin" where
  "handle_sync t p =
     (case active_strategy p of
        None \<Rightarrow> (Raised AttributeError, p)
      | Some s \<Rightarrow>
          (case sync (type_of s) (chain p) (db_manager p) (peer_pool p) (cancel_token p) t p of
             (Raised e, p') \<Rightarrow> (Raised e, p')
           | (Returned, p') \<Rightarrow>
               (if shutdown_node_on_halt (type_of s)
                then (Returned,
                      request_shutdown ''Sync ended unexpectedly''
                        (p'\<lparr>logger := logger p' @
                           [LogError ''Sync ended unexpectedly. Shutting down trinity'']\<rparr>))
                else (Returned, p'))))"

section \<open>Reachable states\<close>

text \<open>
  The states of a plugin: the one \<^verbatim>\<open>__init__\<close> builds, and the state after any call
  of \<^verbatim>\<open>on_ready\<close>, \<^verbatim>\<open>handle_event\<close> or \<^verbatim>\<open>handle_sync\<close> in a state already
  reached, whether the call returns or raises. The calls a node really makes (one
  \<^verbatim>\<open>on_ready\<close>, events once subscribed, one \<^verbatim>\<open>handle_sync\<close> per scheduled
  coroutine) are among them.
\<close>

inductive reachable :: "SyncerPlugin \<Rightarrow> bool" where
  reach_init: "reachable (init ss d)"
| reach_ready: "reachable p \<Longrightarrow> reachable (snd (on_ready m p))"
| reach_event: "reachable p \<Longrightarrow> reachable (snd (handle_event event p))"
| reach_sync: "reachable p \<Longrightarrow> reachable (snd (handle_sync t p))"

section \<open>Runs\<close>

text \<open>
  What happens to an activated plugin during a run of the node: the bus delivers a
  notification, or a scheduled \<^verbatim>\<open>handle_sync\<close> runs with the sync operation ending
  in some terminal state.
\<close>

datatype action = Notify ResourceAvailableEvent | SyncEnds terminal_state

fun step :: "action \<Rightarrow> SyncerPlugin \<Rightarrow> SyncerPlugin" where
  "step (Notify event) p = deliver event p"
| "step (SyncEnds t) p = snd (handle_sync t p)"

fun steps :: "action list \<Rightarrow> SyncerPlugin \<Rightarrow> SyncerPlugin" where
  "steps [] p = p"
| "steps (a # as) p = steps as (step a p)"

section \<open>Concrete strategies, events and states\<close>

text \<open>The inputs of the scenarios of the spec, used where a statement is evaluated.\<close>

definition full :: strategy where "full = Strategy FullSyncStrategy 0"
definition light :: strategy where "light = Strategy LightSyncStrategy 1"
definition noop :: strategy where "noop = Strategy NoopSyncStrategy 2"

text \<open>A subclass of \<^verbatim>\<open>FullSyncStrategy\<close> of another plugin: it inherits the mode.\<close>

definition MyFullSyncStrategy :: strategy_type where
  "MyFullSyncStrategy = OtherSyncStrategy ''MyFullSyncStrategy'' ''full'' True"

text \<open>
  The three notifications of scenario D, a notification of a resource the plugin does not
  use, and a peer-pool notification whose resource is not a pair.
\<close>

definition chain_available :: ResourceAvailableEvent where
  "chain_available = \<lparr>resource = Obj 10, resource_type = BaseChain\<rparr>"

definition db_manager_available :: ResourceAvailableEvent where
  "db_manager_available = \<lparr>resource = Obj 11, resource_type = BaseManager\<rparr>"

definition peer_pool_available :: ResourceAvailableEvent where
  "peer_pool_available = \<lparr>resource = Tuple [Obj 12, Obj 13], resource_type = ETHPeerPool\<rparr>"

definition endpoint_available :: ResourceAvailableEvent where
  "endpoint_available = \<lparr>resource = Obj 14, resource_type = OtherType ''Endpoint''\<rparr>"

text \<open>
  The plugin with the candidates \<^verbatim>\<open>[Full, Light]\<close> after \<^verbatim>\<open>on_ready\<close> for the
  mode \<^verbatim>\<open>full\<close>, and after the three notifications; the same with the no-op strategy.
\<close>

definition activated :: SyncerPlugin where
  "activated = snd (on_ready ''full'' (init [full, light] FullSyncStrategy))"

definition launched :: SyncerPlugin where
  "launched = deliver_all [chain_available, db_manager_available, peer_pool_available] activated"

definition launched_noop :: SyncerPlugin where
  "launched_noop =
     deliver_all [chain_available, db_manager_available, peer_pool_available]
       (snd (on_ready ''none'' (init [full, noop] FullSyncStrategy)))"

text \<open>The candidates of a mode \<open>m\<close>: the strategies whose mode is \<open>m\<close>, letter case apart.\<close>

definition matching :: "string \<Rightarrow> strategy list \<Rightarrow> strategy list" where
  "matching m ss = filter (\<lambda>s. lower (get_sync_mode (type_of s)) = lower m) ss"

section \<open>Properties of the configuration\<close>

lemma lower_modes:
  "lower ''FULL'' = ''full''" "lower ''full'' = ''full''" "lower ''light'' = ''light''"
  "lower ''fast'' = ''fast''" "lower ''none'' = ''none''"
  by code_simp+

text \<open>
  C3, as the spec states it: \<^verbatim>\<open>configure\<close> fails if and only if the mode of the default
  strategy is not among the modes of the candidates. The code compares classes, not modes:
  with the single candidate \<^verbatim>\<open>FullSyncStrategy()\<close> and a subclass of
  \<^verbatim>\<open>FullSyncStrategy\<close> as the default, the mode \<^verbatim>\<open>full\<close> is among the candidates'
  modes and \<^verbatim>\<open>configure_parser\<close> raises all the same.
\<close>

theorem configure_fails_with_mode_present:
  "\<not> (isl (configure_parser (init [full] MyFullSyncStrategy)) \<longleftrightarrow>
      get_sync_mode (default_strategy (init [full] MyFullSyncStrategy))
        \<notin> set (extract_modes (init [full] MyFullSyncStrategy)))"
  by (simp add: configure_parser_def init_def extract_modes_def extract_strategy_types_def
      full_def MyFullSyncStrategy_def SYNC_FULL_def)

text \<open>
  C3, amended: \<^verbatim>\<open>configure_parser\<close> fails, with the validation error that names the
  default strategy, if and only if the class of the default strategy is not among the
  classes of the candidates. A default whose mode is not among the candidates' modes always
  fails; a default whose class is among the candidates' classes succeeds, and its mode is
  then among their modes.
\<close>

theorem configure_fails_iff_type_absent:
  "(configure_parser p = Inl (ValidationError (DefaultStrategyNotInStrategies (default_strategy p)))
      \<longleftrightarrow> default_strategy p \<notin> set (extract_strategy_types p))
   \<and> (isl (configure_parser p) \<longleftrightarrow> default_strategy p \<notin> set (extract_strategy_types p))
   \<and> (get_sync_mode (default_strategy p) \<notin> set (extract_modes p) \<longrightarrow> isl (configure_parser p))
   \<and> (default_strategy p \<in> set (extract_strategy_types p) \<longrightarrow>
        \<not> isl (configure_parser p) \<and> get_sync_mode (default_strategy p) \<in> set (extract_modes p))"
  by (auto simp: configure_parser_def extract_modes_def extract_strategy_types_def)

text \<open>
  Scenario B of the spec (the default \<^verbatim>\<open>LightSyncStrategy\<close> is not a candidate) fails;
  scenario A (the default \<^verbatim>\<open>FullSyncStrategy\<close> is one) succeeds.
\<close>

theorem configure_fails_iff_type_absent_witness:
  "get_sync_mode (default_strategy (init [full] LightSyncStrategy))
      \<notin> set (extract_modes (init [full] LightSyncStrategy))
   \<and> isl (configure_parser (init [full] LightSyncStrategy))
   \<and> default_strategy (init [full, light] FullSyncStrategy)
      \<in> set (extract_strategy_types (init [full, light] FullSyncStrategy))
   \<and> \<not> isl (configure_parser (init [full, light] FullSyncStrategy))
   \<and> get_sync_mode (default_strategy (init [full, light] FullSyncStrategy))
      \<in> set (extract_modes (init [full, light] FullSyncStrategy))"
proof -
  have b: "get_sync_mode (default_strategy (init [full] LightSyncStrategy))
      \<notin> set (extract_modes (init [full] LightSyncStrategy))"
    by (simp add: init_def extract_modes_def full_def SYNC_FULL_def SYNC_LIGHT_def)
  have a: "default_strategy (init [full, light] FullSyncStrategy)
      \<in> set (extract_strategy_types (init [full, light] FullSyncStrategy))"
    by (simp add: init_def extract_strategy_types_def full_def)
  show ?thesis
    using a b configure_fails_iff_type_absent [of "init [full] LightSyncStrategy"]
      configure_fails_iff_type_absent [of "init [full, light] FullSyncStrategy"]
    by blast
qed

text \<open>
  C7: when \<^verbatim>\<open>configure_parser\<close> succeeds, the choices of the \<^verbatim>\<open>--sync-mode\<close>
  argument are, as a set, the modes of the registered candidates, and the default value is
  the mode of the default strategy. For the candidates \<^verbatim>\<open>[Full, Light]\<close> with the
  default \<^verbatim>\<open>Full\<close> it succeeds, with the default value \<^verbatim>\<open>full\<close>.
\<close>

theorem configure_exposes_modes:
  "(configure_parser p = Inr a \<longrightarrow>
      set (choices a) = (\<lambda>s. get_sync_mode (type_of s)) ` set (strategies p)
      \<and> default_value a = get_sync_mode (default_strategy p))
   \<and> configure_parser (init [full, light] FullSyncStrategy) =
       Inr \<lparr>flag = ''--sync-mode'', choices = [''full'', ''light''], default_value = ''full''\<rparr>"
proof -
  have "configure_parser (init [full, light] FullSyncStrategy) =
       Inr \<lparr>flag = ''--sync-mode'', choices = [''full'', ''light''], default_value = ''full''\<rparr>"
    by (simp add: configure_parser_def init_def extract_modes_def extract_strategy_types_def
        full_def light_def SYNC_FULL_def SYNC_LIGHT_def)
  moreover have "configure_parser p = Inr a \<longrightarrow>
      set (choices a) = (\<lambda>s. get_sync_mode (type_of s)) ` set (strategies p)
      \<and> default_value a = get_sync_mode (default_strategy p)"
    by (auto simp: configure_parser_def extract_modes_def split: if_splits)
  ultimately show ?thesis by blast
qed

theorem configure_exposes_modes_witness:
  "configure_parser (init [full, light] FullSyncStrategy) =
       Inr \<lparr>flag = ''--sync-mode'', choices = [''full'', ''light''], default_value = ''full''\<rparr>
   \<and> set (choices \<lparr>flag = ''--sync-mode'', choices = [''full'', ''light''], default_value = ''full''\<rparr>)
       = (\<lambda>s. get_sync_mode (type_of s)) ` set (strategies (init [full, light] FullSyncStrategy))
   \<and> default_value \<lparr>flag = ''--sync-mode'', choices = [''full'', ''light''], default_value = ''full''\<rparr>
       = get_sync_mode (default_strategy (init [full, light] FullSyncStrategy))"
  using configure_exposes_modes [of "init [full, light] FullSyncStrategy"
      "\<lparr>flag = ''--sync-mode'', choices = [''full'', ''light''], default_value = ''full''\<rparr>"]
  by blast

section \<open>Activation: resolving the configured mode\<close>

lemma on_ready_loop_active:
  "active_strategy p = Some a \<Longrightarrow>
   on_ready_loop m ss p =
     (case matching m ss of
        [] \<Rightarrow> (Returned, p)
      | c # cs \<Rightarrow> (Raised (ValidationError (AmbiguousSyncStrategy a c)), p))"
  by (induction ss) (auto simp: matching_def)

lemma on_ready_loop_fresh:
  "active_strategy p = None \<Longrightarrow>
   on_ready_loop m ss p =
     (case matching m ss of
        [] \<Rightarrow> (Returned, p)
      | [c] \<Rightarrow> (Returned, p\<lparr>active_strategy := Some c\<rparr>)
      | c # c' # cs \<Rightarrow>
          (Raised (ValidationError (AmbiguousSyncStrategy c c')), p\<lparr>active_strategy := Some c\<rparr>))"
proof (induction ss arbitrary: p)
  case Nil
  then show ?case by (simp add: matching_def)
next
  case (Cons s ss)
  show ?case
  proof (cases "lower (get_sync_mode (type_of s)) = lower m")
    case False
    with Cons show ?thesis by (simp add: matching_def)
  next
    case True
    have "active_strategy (p\<lparr>active_strategy := Some s\<rparr>) = Some s" by simp
    from on_ready_loop_active [OF this, of m ss] True Cons.prems show ?thesis
      by (simp add: matching_def split: list.splits)
  qed
qed

lemma deliver_all_unsubscribed: "\<not> subscribed p \<Longrightarrow> deliver_all events p = p"
  by (induction events) (simp_all add: deliver_def)

text \<open>
  C4: for every configured mode \<open>m\<close>, \<^verbatim>\<open>on_ready\<close> on a fresh plugin compares \<open>m\<close>
  with the mode of every candidate, letter case apart. With exactly one matching candidate
  it returns with that candidate active and the handler subscribed; with two or more it
  raises the ambiguity error that names the first two; with none it returns with no active
  strategy, one warning logged and nothing subscribed, and then no delivery on the bus
  changes the plugin: no resource is taken.
\<close>

theorem on_ready_resolves_mode:
  "(matching m ss = [c] \<longrightarrow>
      on_ready m (init ss d) =
        (Returned, (init ss d)\<lparr>active_strategy := Some c, subscribed := True\<rparr>))
   \<and> (matching m ss = c # c' # cs \<longrightarrow>
      on_ready m (init ss d) =
        (Raised (ValidationError (AmbiguousSyncStrategy c c')),
         (init ss d)\<lparr>active_strategy := Some c\<rparr>))
   \<and> (matching m ss = [] \<longrightarrow>
      on_ready m (init ss d) =
        (Returned,
         (init ss d)\<lparr>logger := [LogWarn (''No sync strategy matches --sync-mode='' @ m)]\<rparr>)
      \<and> (\<forall>events. deliver_all events (snd (on_ready m (init ss d)))
            = snd (on_ready m (init ss d))))"
proof -
  have n: "active_strategy (init ss d) = None" "strategies (init ss d) = ss"
    by (simp_all add: init_def)
  have 1: "matching m ss = [c] \<longrightarrow>
      on_ready m (init ss d) =
        (Returned, (init ss d)\<lparr>active_strategy := Some c, subscribed := True\<rparr>)"
    by (simp add: on_ready_def on_ready_loop_fresh [OF n(1)] n(2))
  have 2: "matching m ss = c # c' # cs \<longrightarrow>
      on_ready m (init ss d) =
        (Raised (ValidationError (AmbiguousSyncStrategy c c')),
         (init ss d)\<lparr>active_strategy := Some c\<rparr>)"
    by (simp add: on_ready_def on_ready_loop_fresh [OF n(1)] n(2))
  have 3: "matching m ss = [] \<longrightarrow>
      on_ready m (init ss d) =
        (Returned,
         (init ss d)\<lparr>logger := [LogWarn (''No sync strategy matches --sync-mode='' @ m)]\<rparr>)"
    by (simp add: on_ready_def on_ready_loop_fresh [OF n(1)] n(2)) (simp add: init_def)
  have 4: "matching m ss = [] \<longrightarrow>
     (\<forall>events. deliver_all events (snd (on_ready m (init ss d)))
        = snd (on_ready m (init ss d)))"
  proof (intro impI allI)
    fix events
    assume "matching m ss = []"
    with 3 have "\<not> subscribed (snd (on_ready m (init ss d)))"
      by (simp add: init_def)
    then show "deliver_all events (snd (on_ready m (init ss d))) = snd (on_ready m (init ss d))"
      by (rule deliver_all_unsubscribed)
  qed
  from 1 2 3 4 show ?thesis by blast
qed

text \<open>
  Scenario C of the spec: the configured mode \<^verbatim>\<open>FULL\<close> selects the candidate of mode
  \<^verbatim>\<open>full\<close>. Two instances of \<^verbatim>\<open>FullSyncStrategy\<close> are ambiguous for
  \<^verbatim>\<open>full\<close>, and \<^verbatim>\<open>fast\<close> matches neither \<^verbatim>\<open>Full\<close> nor \<^verbatim>\<open>Light\<close>.
\<close>

theorem on_ready_resolves_mode_witness:
  "matching ''FULL'' [full, light] = [full]
   \<and> on_ready ''FULL'' (init [full, light] FullSyncStrategy) =
       (Returned,
        (init [full, light] FullSyncStrategy)\<lparr>active_strategy := Some full, subscribed := True\<rparr>)
   \<and> matching ''full'' [full, light, full] = [full, full]
   \<and> on_ready ''full'' (init [full, light, full] FullSyncStrategy) =
       (Raised (ValidationError (AmbiguousSyncStrategy full full)),
        (init [full, light, full] FullSyncStrategy)\<lparr>active_strategy := Some full\<rparr>)
   \<and> matching ''fast'' [full, light] = []
   \<and> on_ready ''fast'' (init [full, light] FullSyncStrategy) =
       (Returned,
        (init [full, light] FullSyncStrategy)
          \<lparr>logger := [LogWarn ''No sync strategy matches --sync-mode=fast'']\<rparr>)
   \<and> deliver_all [chain_available, db_manager_available, peer_pool_available]
        (snd (on_ready ''fast'' (init [full, light] FullSyncStrategy)))
       = snd (on_ready ''fast'' (init [full, light] FullSyncStrategy))"
proof -
  have a: "matching ''FULL'' [full, light] = [full]"
    by (simp add: matching_def full_def light_def lower_modes SYNC_FULL_def SYNC_LIGHT_def)
  have b: "matching ''full'' [full, light, full] = [full, full]"
    by (simp add: matching_def full_def light_def lower_modes SYNC_FULL_def SYNC_LIGHT_def)
  have c: "matching ''fast'' [full, light] = []"
    by (simp add: matching_def full_def light_def lower_modes SYNC_FULL_def SYNC_LIGHT_def)
  have w1: "on_ready ''FULL'' (init [full, light] FullSyncStrategy) =
      (Returned,
       (init [full, light] FullSyncStrategy)\<lparr>active_strategy := Some full, subscribed := True\<rparr>)"
    using a on_ready_resolves_mode [of "''FULL''" "[full, light]" full FullSyncStrategy]
    by blast
  have w2: "on_ready ''full'' (init [full, light, full] FullSyncStrategy) =
      (Raised (ValidationError (AmbiguousSyncStrategy full full)),
       (init [full, light, full] FullSyncStrategy)\<lparr>active_strategy := Some full\<rparr>)"
    using b on_ready_resolves_mode
      [of "''full''" "[full, light, full]" full FullSyncStrategy full "[]"]
    by blast
  have w3: "on_ready ''fast'' (init [full, light] FullSyncStrategy) =
      (Returned,
       (init [full, light] FullSyncStrategy)
         \<lparr>logger := [LogWarn ''No sync strategy matches --sync-mode=fast'']\<rparr>)"
    using c on_ready_resolves_mode [of "''fast''" "[full, light]" full FullSyncStrategy]
    by simp
  have w4: "deliver_all [chain_available, db_manager_available, peer_pool_available]
        (snd (on_ready ''fast'' (init [full, light] FullSyncStrategy)))
       = snd (on_ready ''fast'' (init [full, light] FullSyncStrategy))"
    using c on_ready_resolves_mode [of "''fast''" "[full, light]" full FullSyncStrategy]
    by blast
  from a b c w1 w2 w3 w4 show ?thesis by blast
qed

section \<open>Evaluating the scenarios\<close>

lemma activated_eq:
  "activated =
     (init [full, light] FullSyncStrategy)\<lparr>active_strategy := Some full, subscribed := True\<rparr>"
  by (simp add: activated_def on_ready_def init_def full_def light_def lower_modes
      SYNC_FULL_def SYNC_LIGHT_def)

lemmas eval_events =
  deliver_def handle_event_def start_if_ready_def start_def do_start_def init_def
  chain_available_def db_manager_available_def peer_pool_available_def
  endpoint_available_def ETHPeerPool_def activated_eq

lemma launched_eq:
  "launched =
     (init [full, light] FullSyncStrategy)\<lparr>active_strategy := Some full, subscribed := True,
        chain := Some (Obj 10), db_manager := Some (Obj 11),
        peer_pool := Some (Obj 12), cancel_token := Some (Obj 13), started := True,
        scheduled := 1\<rparr>"
  by (simp add: launched_def eval_events)

lemma launched_noop_eq:
  "launched_noop =
     (init [full, noop] FullSyncStrategy)\<lparr>active_strategy := Some noop, subscribed := True,
        chain := Some (Obj 10), db_manager := Some (Obj 11),
        peer_pool := Some (Obj 12), cancel_token := Some (Obj 13), started := True,
        scheduled := 1\<rparr>"
  by (simp add: launched_noop_def on_ready_def deliver_def handle_event_def start_if_ready_def
      start_def do_start_def init_def chain_available_def db_manager_available_def
      peer_pool_available_def ETHPeerPool_def full_def noop_def lower_modes SYNC_FULL_def)

section \<open>What each operation leaves unchanged\<close>

lemma on_ready_loop_fields:
  "peer_pool (snd (on_ready_loop m ss p)) = peer_pool p
   \<and> cancel_token (snd (on_ready_loop m ss p)) = cancel_token p
   \<and> db_manager (snd (on_ready_loop m ss p)) = db_manager p
   \<and> chain (snd (on_ready_loop m ss p)) = chain p
   \<and> scheduled (snd (on_ready_loop m ss p)) = scheduled p"
  by (induction ss arbitrary: p) (simp_all split: option.splits)

lemma on_ready_fields:
  "peer_pool (snd (on_ready m p)) = peer_pool p
   \<and> cancel_token (snd (on_ready m p)) = cancel_token p
   \<and> db_manager (snd (on_ready m p)) = db_manager p
   \<and> chain (snd (on_ready m p)) = chain p
   \<and> scheduled (snd (on_ready m p)) = scheduled p"
proof -
  obtain st p' where r: "on_ready_loop m (strategies p) p = (st, p')"
    by (cases "on_ready_loop m (strategies p) p")
  with on_ready_loop_fields [of m "strategies p" p]
  have f: "peer_pool p' = peer_pool p" "cancel_token p' = cancel_token p"
    "db_manager p' = db_manager p" "chain p' = chain p" "scheduled p' = scheduled p"
    by simp_all
  show ?thesis
    using r f by (cases st; cases "active_strategy p'") (simp_all add: on_ready_def)
qed

lemma sync_fields:
  "peer_pool (snd (sync c ch dbm pool token t p)) = peer_pool p
   \<and> cancel_token (snd (sync c ch dbm pool token t p)) = cancel_token p
   \<and> db_manager (snd (sync c ch dbm pool token t p)) = db_manager p
   \<and> chain (snd (sync c ch dbm pool token t p)) = chain p
   \<and> scheduled (snd (sync c ch dbm pool token t p)) = scheduled p
   \<and> active_strategy (snd (sync c ch dbm pool token t p)) = active_strategy p
   \<and> shutdown_requests (snd (sync c ch dbm pool token t p)) = shutdown_requests p"
  by (cases c; cases dbm) (simp_all add: run_def)

lemma handle_sync_fields:
  "peer_pool (snd (handle_sync t p)) = peer_pool p
   \<and> cancel_token (snd (handle_sync t p)) = cancel_token p
   \<and> db_manager (snd (handle_sync t p)) = db_manager p
   \<and> chain (snd (handle_sync t p)) = chain p
   \<and> scheduled (snd (handle_sync t p)) = scheduled p
   \<and> active_strategy (snd (handle_sync t p)) = active_strategy p"
proof (cases "active_strategy p")
  case None
  then show ?thesis by (simp add: handle_sync_def)
next
  case (Some s)
  obtain st p' where r:
    "sync (type_of s) (chain p) (db_manager p) (peer_pool p) (cancel_token p) t p = (st, p')"
    by (cases "sync (type_of s) (chain p) (db_manager p) (peer_pool p) (cancel_token p) t p")
  with sync_fields [of "type_of s" "chain p" "db_manager p" "peer_pool p" "cancel_token p" t p]
  have f: "peer_pool p' = peer_pool p" "cancel_token p' = cancel_token p"
    "db_manager p' = db_manager p" "chain p' = chain p" "scheduled p' = scheduled p"
    "active_strategy p' = active_strategy p"
    by simp_all
  show ?thesis
    using Some r f by (cases st) (simp_all add: handle_sync_def request_shutdown_def)
qed

lemma start_if_ready_fields:
  "peer_pool (start_if_ready p) = peer_pool p"
  "cancel_token (start_if_ready p) = cancel_token p"
  "db_manager (start_if_ready p) = db_manager p"
  "chain (start_if_ready p) = chain p"
  "active_strategy (start_if_ready p) = active_strategy p"
  "shutdown_requests (start_if_ready p) = shutdown_requests p"
  by (simp_all add: start_if_ready_def start_def do_start_def)

lemma start_if_ready_scheduled:
  "scheduled (start_if_ready p) =
     (if peer_pool p \<noteq> None \<and> db_manager p \<noteq> None \<and> chain p \<noteq> None \<and> \<not> started p
      then Suc (scheduled p) else scheduled p)"
  by (auto simp: start_if_ready_def start_def do_start_def)

lemma handle_event_active: "active_strategy (snd (handle_event event p)) = active_strategy p"
  by (auto simp: handle_event_def start_if_ready_fields split: sum.splits)

lemma step_active: "active_strategy (step a p) = active_strategy p"
  by (cases a) (simp_all add: deliver_def handle_event_active handle_sync_fields)

lemma steps_active: "active_strategy (steps as p) = active_strategy p"
  by (induction as arbitrary: p) (simp_all add: step_active)

section \<open>The resource barrier\<close>

lemma deliver_all_append:
  "deliver_all (events @ later) p = deliver_all later (deliver_all events p)"
  by (induction events arbitrary: p) simp_all

lemma handle_event_started:
  "started p \<Longrightarrow>
   started (snd (handle_event event p)) \<and> subscribed (snd (handle_event event p)) = subscribed p
   \<and> scheduled (snd (handle_event event p)) = scheduled p"
  by (auto simp: handle_event_def start_if_ready_def start_def split: sum.splits)

lemma deliver_all_started:
  "started p \<Longrightarrow>
   started (deliver_all events p) \<and> subscribed (deliver_all events p) = subscribed p
   \<and> scheduled (deliver_all events p) = scheduled p"
proof (induction events arbitrary: p)
  case Nil
  then show ?case by simp
next
  case (Cons event events)
  have "started (deliver event p) \<and> subscribed (deliver event p) = subscribed p
      \<and> scheduled (deliver event p) = scheduled p"
    using handle_event_started [OF Cons.prems, of event] Cons.prems by (simp add: deliver_def)
  with Cons.IH [of "deliver event p"] show ?case by simp
qed

lemma handle_event_returns:
  "\<not> issubclass (resource_type event) BaseChainPeerPool \<or> resource event = Tuple [a, b] \<Longrightarrow>
   fst (handle_event event p) = Returned"
  by (auto simp: handle_event_def)

text \<open>
  The barrier on a plugin that has subscribed and holds no resource yet: the three
  notifications, one of each kind, in any of their six orders.
\<close>

lemma barrier_third_delivery:
  assumes "subscribed p" "\<not> started p" "scheduled p = 0"
    and "peer_pool p = None" "db_manager p = None" "chain p = None"
    and "issubclass (resource_type pool_event) BaseChainPeerPool"
    and "resource pool_event = Tuple [pool, token]"
    and "resource_type manager_event = BaseManager"
    and "resource_type chain_event = BaseChain"
    and "events \<in> {[chain_event, manager_event, pool_event],
                    [chain_event, pool_event, manager_event],
                    [manager_event, chain_event, pool_event],
                    [manager_event, pool_event, chain_event],
                    [pool_event, chain_event, manager_event],
                    [pool_event, manager_event, chain_event]}"
  shows "scheduled (deliver_all (take 0 events) p) = 0"
    and "scheduled (deliver_all (take 1 events) p) = 0"
    and "scheduled (deliver_all (take 2 events) p) = 0"
    and "scheduled (deliver_all events p) = 1"
    and "started (deliver_all events p)"
  using assms
  by (auto simp: deliver_def handle_event_def start_if_ready_def start_def do_start_def)

text \<open>
  C1: on a plugin with an active strategy (it has subscribed, and holds no resource yet),
  the peer-pool, data-store-manager and chain-handle notifications, delivered in any of
  their six orders, launch the sync operation exactly once: no \<^verbatim>\<open>handle_sync\<close> is
  scheduled before the third delivery and one is right after it. Whatever notifications
  follow, still exactly one is scheduled, and a following notification that is well formed
  (a repeated peer-pool notification among them) is handled without an error.
\<close>

theorem barrier_launches_exactly_once:
  assumes "subscribed p" "\<not> started p" "scheduled p = 0"
    and "peer_pool p = None" "db_manager p = None" "chain p = None"
    and "issubclass (resource_type pool_event) BaseChainPeerPool"
    and "resource pool_event = Tuple [pool, token]"
    and "resource_type manager_event = BaseManager"
    and "resource_type chain_event = BaseChain"
    and "events \<in> {[chain_event, manager_event, pool_event],
                    [chain_event, pool_event, manager_event],
                    [manager_event, chain_event, pool_event],
                    [manager_event, pool_event, chain_event],
                    [pool_event, chain_event, manager_event],
                    [pool_event, manager_event, chain_event]}"
  shows "(\<forall>n<3. scheduled (deliver_all (take n events) p) = 0)
    \<and> scheduled (deliver_all events p) = 1
    \<and> scheduled (deliver_all (events @ later) p) = 1
    \<and> (\<not> issubclass (resource_type event) BaseChainPeerPool \<or> resource event = Tuple [a, b] \<longrightarrow>
         fst (handle_event event (deliver_all (events @ later) p)) = Returned
         \<and> scheduled (snd (handle_event event (deliver_all (events @ later) p))) = 1)"
proof -
  note b = barrier_third_delivery [OF assms]
  have before: "\<forall>n<3. scheduled (deliver_all (take n events) p) = 0"
  proof (intro allI impI)
    fix n :: nat
    assume "n < 3"
    then have "n = 0 \<or> n = 1 \<or> n = 2" by arith
    with b(1-3) show "scheduled (deliver_all (take n events) p) = 0" by blast
  qed
  have after: "started (deliver_all (events @ later) p)"
    "scheduled (deliver_all (events @ later) p) = 1"
    using deliver_all_started [OF b(5), of later] b(4) by (simp_all add: deliver_all_append)
  have again: "scheduled (snd (handle_event event (deliver_all (events @ later) p))) = 1"
    using handle_event_started [OF after(1), of event] after(2) by simp
  from before b(4) after(2) again handle_event_returns [of event a b]
  show ?thesis by blast
qed

text \<open>
  Scenario D of the spec: the chain handle, the data-store manager, the peer pool, and the
  peer-pool notification once more.
\<close>

theorem barrier_launches_exactly_once_witness:
  "subscribed activated \<and> \<not> started activated \<and> scheduled activated = 0
   \<and> peer_pool activated = None \<and> db_manager activated = None \<and> chain activated = None
   \<and> issubclass (resource_type peer_pool_available) BaseChainPeerPool
   \<and> resource peer_pool_available = Tuple [Obj 12, Obj 13]
   \<and> resource_type db_manager_available = BaseManager
   \<and> resource_type chain_available = BaseChain
   \<and> scheduled (deliver_all (take 2 [chain_available, db_manager_available,
         peer_pool_available]) activated) = 0
   \<and> scheduled (deliver_all [chain_available, db_manager_available, peer_pool_available]
         activated) = 1
   \<and> scheduled (deliver_all ([chain_available, db_manager_available, peer_pool_available]
         @ [peer_pool_available]) activated) = 1
   \<and> fst (handle_event peer_pool_available
         (deliver_all ([chain_available, db_manager_available, peer_pool_available] @ [])
            activated)) = Returned"
proof -
  have f: "subscribed activated" "\<not> started activated" "scheduled activated = 0"
    "peer_pool activated = None" "db_manager activated = None" "chain activated = None"
    by (simp_all add: activated_eq init_def)
  have k: "issubclass (resource_type peer_pool_available) BaseChainPeerPool"
    "resource peer_pool_available = Tuple [Obj 12, Obj 13]"
    "resource_type db_manager_available = BaseManager"
    "resource_type chain_available = BaseChain"
    by (simp_all add: peer_pool_available_def db_manager_available_def chain_available_def
        ETHPeerPool_def)
  have o: "[chain_available, db_manager_available, peer_pool_available]
      \<in> {[chain_available, db_manager_available, peer_pool_available],
          [chain_available, peer_pool_available, db_manager_available],
          [db_manager_available, chain_available, peer_pool_available],
          [db_manager_available, peer_pool_available, chain_available],
          [peer_pool_available, chain_available, db_manager_available],
          [peer_pool_available, db_manager_available, chain_available]}"
    by simp
  have two: "(2::nat) < 3" by simp
  note t1 = barrier_launches_exactly_once [OF f k o, of "[peer_pool_available]"
      peer_pool_available "Obj 12" "Obj 13"]
  note t2 = barrier_launches_exactly_once [OF f k o, of "[]"
      peer_pool_available "Obj 12" "Obj 13"]
  from t1 two have w1: "scheduled (deliver_all (take 2 [chain_available,
      db_manager_available, peer_pool_available]) activated) = 0"
    by blast
  from t1 have w2: "scheduled (deliver_all [chain_available, db_manager_available,
      peer_pool_available] activated) = 1"
    by blast
  from t1 have w3: "scheduled (deliver_all ([chain_available, db_manager_available,
      peer_pool_available] @ [peer_pool_available]) activated) = 1"
    by blast
  from t2 k(2) have w4: "fst (handle_event peer_pool_available
      (deliver_all ([chain_available, db_manager_available, peer_pool_available] @ [])
         activated)) = Returned"
    by blast
  from f k w1 w2 w3 w4 show ?thesis by blast
qed

lemma handle_event_launch:
  "scheduled (snd (handle_event event p)) \<noteq> scheduled p \<Longrightarrow>
     peer_pool (snd (handle_event event p)) \<noteq> None \<and>
     db_manager (snd (handle_event event p)) \<noteq> None \<and>
     chain (snd (handle_event event p)) \<noteq> None"
  by (auto simp: handle_event_def start_if_ready_fields start_if_ready_scheduled
      split: sum.splits if_splits)

lemma handle_event_keeps:
  "peer_pool p \<noteq> None \<Longrightarrow> peer_pool (snd (handle_event event p)) \<noteq> None"
  "db_manager p \<noteq> None \<Longrightarrow> db_manager (snd (handle_event event p)) \<noteq> None"
  "chain p \<noteq> None \<Longrightarrow> chain (snd (handle_event event p)) \<noteq> None"
  by (auto simp: handle_event_def start_if_ready_fields split: sum.splits)

lemma scheduled_resources:
  "reachable p \<Longrightarrow> 0 < scheduled p \<Longrightarrow>
     peer_pool p \<noteq> None \<and> db_manager p \<noteq> None \<and> chain p \<noteq> None"
proof (induction rule: reachable.induct)
  case (reach_init ss d)
  then show ?case by (simp add: init_def)
next
  case (reach_ready p m)
  then show ?case by (simp add: on_ready_fields)
next
  case (reach_event p event)
  show ?case
  proof (cases "scheduled (snd (handle_event event p)) = scheduled p")
    case True
    with reach_event
    have "peer_pool p \<noteq> None \<and> db_manager p \<noteq> None \<and> chain p \<noteq> None"
      by simp
    then show ?thesis using handle_event_keeps by blast
  next
    case False
    then show ?thesis by (rule handle_event_launch)
  qed
next
  case (reach_sync p t)
  then show ?case by (simp add: handle_sync_fields)
qed

lemma reachable_deliver_all: "reachable p \<Longrightarrow> reachable (deliver_all events p)"
  by (induction events arbitrary: p) (simp_all add: deliver_def reach_event)

lemma reachable_activated: "reachable activated"
  unfolding activated_def by (intro reach_ready reach_init)

lemma reachable_launched: "reachable launched"
  unfolding launched_def by (intro reachable_deliver_all reachable_activated)

text \<open>
  C5: the sync operation is never started while one of the peer pool, the data-store
  manager and the chain handle is still empty. A call of \<^verbatim>\<open>handle_event\<close> that
  schedules a \<^verbatim>\<open>handle_sync\<close> ends with the three fields set, in whatever state it is
  called; and in every reachable state in which a \<^verbatim>\<open>handle_sync\<close> has been scheduled
  the three fields are set.
\<close>

theorem no_launch_before_all_resources:
  "(reachable p \<longrightarrow> 0 < scheduled p \<longrightarrow>
      peer_pool p \<noteq> None \<and> db_manager p \<noteq> None \<and> chain p \<noteq> None)
   \<and> (scheduled (snd (handle_event event q)) \<noteq> scheduled q \<longrightarrow>
      peer_pool (snd (handle_event event q)) \<noteq> None \<and>
      db_manager (snd (handle_event event q)) \<noteq> None \<and>
      chain (snd (handle_event event q)) \<noteq> None)"
  using scheduled_resources handle_event_launch by blast

theorem no_launch_before_all_resources_witness:
  "reachable launched \<and> 0 < scheduled launched
   \<and> peer_pool launched \<noteq> None \<and> db_manager launched \<noteq> None \<and> chain launched \<noteq> None
   \<and> scheduled (snd (handle_event peer_pool_available
          (deliver_all [chain_available, db_manager_available] activated)))
       \<noteq> scheduled (deliver_all [chain_available, db_manager_available] activated)
   \<and> peer_pool (snd (handle_event peer_pool_available
          (deliver_all [chain_available, db_manager_available] activated))) \<noteq> None
   \<and> db_manager (snd (handle_event peer_pool_available
          (deliver_all [chain_available, db_manager_available] activated))) \<noteq> None
   \<and> chain (snd (handle_event peer_pool_available
          (deliver_all [chain_available, db_manager_available] activated))) \<noteq> None"
proof -
  have s: "0 < scheduled launched"
    by (simp add: launched_eq init_def)
  have n: "scheduled (snd (handle_event peer_pool_available
          (deliver_all [chain_available, db_manager_available] activated)))
       \<noteq> scheduled (deliver_all [chain_available, db_manager_available] activated)"
    by (simp add: eval_events)
  show ?thesis
    using reachable_launched s n
      no_launch_before_all_resources [of launched peer_pool_available
        "deliver_all [chain_available, db_manager_available] activated"]
    by blast
qed

lemma handle_event_pair:
  "(peer_pool p = None \<longleftrightarrow> cancel_token p = None) \<Longrightarrow>
   (peer_pool (snd (handle_event event p)) = None
      \<longleftrightarrow> cancel_token (snd (handle_event event p)) = None)"
  by (auto simp: handle_event_def start_if_ready_fields split: sum.splits)

lemma pool_token_together:
  "reachable p \<Longrightarrow> (peer_pool p = None \<longleftrightarrow> cancel_token p = None)"
proof (induction rule: reachable.induct)
  case (reach_init ss d)
  then show ?case by (simp add: init_def)
next
  case (reach_ready p m)
  then show ?case by (simp add: on_ready_fields)
next
  case (reach_event p event)
  from reach_event.IH show ?case by (rule handle_event_pair)
next
  case (reach_sync p t)
  then show ?case by (simp add: handle_sync_fields)
qed

text \<open>
  C9: in every reachable state the peer pool is \<^verbatim>\<open>None\<close> exactly when the cancel token
  is. The two are set together, from the pair a peer-pool notification carries, and a
  notification of any other kind leaves both as they are.
\<close>

theorem peer_pool_and_token_set_together:
  "(reachable p \<longrightarrow> (peer_pool p = None \<longleftrightarrow> cancel_token p = None))
   \<and> (\<not> issubclass (resource_type event) BaseChainPeerPool \<longrightarrow>
        peer_pool (snd (handle_event event q)) = peer_pool q
        \<and> cancel_token (snd (handle_event event q)) = cancel_token q)
   \<and> (issubclass (resource_type event) BaseChainPeerPool \<longrightarrow>
      resource event = Tuple [pool, token] \<longrightarrow>
        peer_pool (snd (handle_event event q)) = Some pool
        \<and> cancel_token (snd (handle_event event q)) = Some token)"
proof -
  have "\<not> issubclass (resource_type event) BaseChainPeerPool \<longrightarrow>
        peer_pool (snd (handle_event event q)) = peer_pool q
        \<and> cancel_token (snd (handle_event event q)) = cancel_token q"
    by (simp add: handle_event_def start_if_ready_fields)
  moreover have "issubclass (resource_type event) BaseChainPeerPool \<longrightarrow>
      resource event = Tuple [pool, token] \<longrightarrow>
        peer_pool (snd (handle_event event q)) = Some pool
        \<and> cancel_token (snd (handle_event event q)) = Some token"
    by (simp add: handle_event_def start_if_ready_fields)
  ultimately show ?thesis using pool_token_together by blast
qed

theorem peer_pool_and_token_set_together_witness:
  "reachable launched \<and> peer_pool launched \<noteq> None \<and> cancel_token launched \<noteq> None
   \<and> reachable activated \<and> peer_pool activated = None \<and> cancel_token activated = None
   \<and> \<not> issubclass (resource_type chain_available) BaseChainPeerPool
   \<and> peer_pool (snd (handle_event chain_available activated)) = None
   \<and> cancel_token (snd (handle_event chain_available activated)) = None
   \<and> issubclass (resource_type peer_pool_available) BaseChainPeerPool
   \<and> resource peer_pool_available = Tuple [Obj 12, Obj 13]
   \<and> peer_pool (snd (handle_event peer_pool_available activated)) = Some (Obj 12)
   \<and> cancel_token (snd (handle_event peer_pool_available activated)) = Some (Obj 13)"
proof -
  have a: "peer_pool launched \<noteq> None"
    by (simp add: launched_eq init_def)
  have b: "peer_pool activated = None" "cancel_token activated = None"
    by (simp_all add: activated_eq init_def)
  have c: "\<not> issubclass (resource_type chain_available) BaseChainPeerPool"
    by (simp add: chain_available_def)
  have d: "issubclass (resource_type peer_pool_available) BaseChainPeerPool"
    "resource peer_pool_available = Tuple [Obj 12, Obj 13]"
    by (simp_all add: peer_pool_available_def ETHPeerPool_def)
  show ?thesis
    using reachable_launched reachable_activated a b c d
      peer_pool_and_token_set_together [of launched chain_available activated]
      peer_pool_and_token_set_together [of activated peer_pool_available activated
        "Obj 12" "Obj 13"]
    by metis
qed

text \<open>
  C10: a notification whose resource type is no subclass of \<^verbatim>\<open>BaseChainPeerPool\<close>
  and is neither \<^verbatim>\<open>BaseManager\<close> nor \<^verbatim>\<open>BaseChain\<close> leaves the peer pool, the
  cancel token, the data-store manager and the chain handle as they are; the readiness
  check is evaluated all the same: \<^verbatim>\<open>handle_event\<close> returns with the plugin as it was
  when one of the three resources is missing, and calls \<^verbatim>\<open>start\<close> when all three are
  there.
\<close>

theorem unrecognised_resource_only_rechecks:
  assumes "\<not> issubclass (resource_type event) BaseChainPeerPool"
    and "resource_type event \<noteq> BaseManager"
    and "resource_type event \<noteq> BaseChain"
  shows "handle_event event p = (Returned, start_if_ready p)
    \<and> handle_event event p =
        (Returned, if None \<notin> set [peer_pool p, db_manager p, chain p] then start p else p)
    \<and> peer_pool (snd (handle_event event p)) = peer_pool p
    \<and> cancel_token (snd (handle_event event p)) = cancel_token p
    \<and> db_manager (snd (handle_event event p)) = db_manager p
    \<and> chain (snd (handle_event event p)) = chain p"
  using assms
  by (simp add: handle_event_def start_if_ready_fields) (simp add: start_if_ready_def)

theorem unrecognised_resource_only_rechecks_witness:
  "\<not> issubclass (resource_type endpoint_available) BaseChainPeerPool
   \<and> resource_type endpoint_available \<noteq> BaseManager
   \<and> resource_type endpoint_available \<noteq> BaseChain
   \<and> handle_event endpoint_available launched = (Returned, start launched)
   \<and> peer_pool (snd (handle_event endpoint_available launched)) = Some (Obj 12)
   \<and> cancel_token (snd (handle_event endpoint_available launched)) = Some (Obj 13)
   \<and> db_manager (snd (handle_event endpoint_available launched)) = Some (Obj 11)
   \<and> chain (snd (handle_event endpoint_available launched)) = Some (Obj 10)
   \<and> handle_event endpoint_available activated = (Returned, activated)"
proof -
  have a: "\<not> issubclass (resource_type endpoint_available) BaseChainPeerPool"
    "resource_type endpoint_available \<noteq> BaseManager"
    "resource_type endpoint_available \<noteq> BaseChain"
    by (simp_all add: endpoint_available_def)
  have f: "peer_pool launched = Some (Obj 12)" "cancel_token launched = Some (Obj 13)"
    "db_manager launched = Some (Obj 11)" "chain launched = Some (Obj 10)"
    by (simp_all add: launched_eq init_def)
  have g: "peer_pool activated = None"
    by (simp add: activated_eq init_def)
  note l = unrecognised_resource_only_rechecks [OF a, of launched]
  note r = unrecognised_resource_only_rechecks [OF a, of activated]
  from l [THEN conjunct2, THEN conjunct1] f
  have w1: "handle_event endpoint_available launched = (Returned, start launched)"
    by simp
  from l f have w2: "peer_pool (snd (handle_event endpoint_available launched)) = Some (Obj 12)"
    "cancel_token (snd (handle_event endpoint_available launched)) = Some (Obj 13)"
    "db_manager (snd (handle_event endpoint_available launched)) = Some (Obj 11)"
    "chain (snd (handle_event endpoint_available launched)) = Some (Obj 10)"
    by metis+
  from r [THEN conjunct2, THEN conjunct1] g
  have w3: "handle_event endpoint_available activated = (Returned, activated)"
    by simp
  from a w1 w2 w3 show ?thesis by blast
qed

text \<open>
  C8: once \<^verbatim>\<open>on_ready\<close> has set the active strategy, nothing assigns it again:
  \<^verbatim>\<open>handle_event\<close>, the launch (\<^verbatim>\<open>do_start\<close>) and \<^verbatim>\<open>handle_sync\<close> leave the field
  as it is, and so does every run made of deliveries and of ends of the sync operation.
\<close>

theorem active_strategy_never_reassigned:
  "active_strategy (snd (handle_event event p)) = active_strategy p
   \<and> active_strategy (do_start p) = active_strategy p
   \<and> active_strategy (snd (handle_sync t p)) = active_strategy p
   \<and> active_strategy (steps as p) = active_strategy p"
  by (simp add: handle_event_active handle_sync_fields steps_active do_start_def)

section \<open>The end of the sync operation\<close>




lemma noop_handle_sync:
  assumes "active_strategy p = Some s" and "type_of s = NoopSyncStrategy"
  shows "handle_sync t p =
    (Returned,
     p\<lparr>logger := logger p @ [LogInfo ''Node running without sync (--sync-mode=none)'']\<rparr>)"
  using assms by (simp add: handle_sync_def)

lemma noop_step:
  assumes "active_strategy p = Some s" and "type_of s = NoopSyncStrategy"
  shows "shutdown_requests (step a p) = shutdown_requests p
    \<and> syncers (step a p) = syncers p"
proof (cases a)
  case (Notify event)
  then show ?thesis
    by (auto simp: deliver_def handle_event_def start_if_ready_def start_def do_start_def
        split: sum.splits)
next
  case (SyncEnds t)
  then show ?thesis by (simp add: noop_handle_sync [OF assms])
qed

lemma noop_steps:
  "active_strategy p = Some s \<Longrightarrow> type_of s = NoopSyncStrategy \<Longrightarrow>
   shutdown_requests (steps as p) = shutdown_requests p \<and> syncers (steps as p) = syncers p"
proof (induction as arbitrary: p)
  case Nil
  then show ?case by simp
next
  case (Cons a as)
  have "active_strategy (step a p) = Some s"
    using Cons.prems(1) by (simp add: step_active)
  from Cons.IH [OF this Cons.prems(2)] noop_step [OF Cons.prems, of a]
  show ?case by simp
qed

text \<open>
  C6: with the no-op strategy active, \<^verbatim>\<open>handle_sync\<close> logs one line and returns,
  however the sync operation is said to end: no syncer is run and no shutdown request is
  sent (\<^verbatim>\<open>shutdown_node_on_halt\<close> is false). Over a whole run, whatever is delivered
  and however often \<^verbatim>\<open>handle_sync\<close> runs, no shutdown request is sent and no syncer run.
\<close>

theorem noop_never_requests_shutdown:
  assumes "active_strategy p = Some s" and "type_of s = NoopSyncStrategy"
  shows "handle_sync t p =
      (Returned,
       p\<lparr>logger := logger p @ [LogInfo ''Node running without sync (--sync-mode=none)'']\<rparr>)
    \<and> \<not> shutdown_node_on_halt (type_of s)
    \<and> shutdown_requests (steps as p) = shutdown_requests p
    \<and> syncers (steps as p) = syncers p"
  using noop_handle_sync [OF assms] noop_steps [OF assms] assms(2) by simp

theorem noop_never_requests_shutdown_witness:
  "active_strategy launched_noop = Some noop \<and> type_of noop = NoopSyncStrategy
   \<and> handle_sync (Failed ''connection lost'') launched_noop =
      (Returned,
       launched_noop\<lparr>logger := [LogInfo ''Node running without sync (--sync-mode=none)'']\<rparr>)
   \<and> shutdown_requests
        (steps [SyncEnds CompletedNormally, Notify peer_pool_available, SyncEnds Cancelled,
                SyncEnds (Failed ''connection lost'')] launched_noop) = []
   \<and> syncers
        (steps [SyncEnds CompletedNormally, Notify peer_pool_available, SyncEnds Cancelled,
                SyncEnds (Failed ''connection lost'')] launched_noop) = []"
proof -
  have a: "active_strategy launched_noop = Some noop"
    by (simp add: launched_noop_eq init_def)
  have b: "type_of noop = NoopSyncStrategy"
    by (simp add: noop_def)
  have c: "logger launched_noop = []" "syncers launched_noop = []"
    "shutdown_requests launched_noop = []"
    by (simp_all add: launched_noop_eq init_def)
  show ?thesis
    using a b c
      noop_never_requests_shutdown [OF a b, of "Failed ''connection lost''"
        "[SyncEnds CompletedNormally, Notify peer_pool_available, SyncEnds Cancelled,
          SyncEnds (Failed ''connection lost'')]"]
    by (simp del: steps.simps)
qed

end
